theory Spec2Isabelle
  imports Main "HOL-Library.Word" "HOL-Library.AList"
begin

unbundle bit_operations_syntax

section \<open>Time and durations\<close>

text \<open>
  A \<open>time.Time\<close> obtained from \<open>time.Now()\<close> is represented by its clock reading in
  nanoseconds; a \<open>time.Duration\<close> is a signed 64-bit count of nanoseconds.  \<open>Time.Sub\<close>
  saturates at the largest and smallest duration instead of wrapping around.
\<close>

type_synonym Time = int
type_synonym Duration = int

definition maxDuration :: Duration where
  "maxDuration = 2 ^ 63 - 1"

definition minDuration :: Duration where
  "minDuration = - (2 ^ 63)"

definition Second :: Duration where
  "Second = 1000000000"

definition Minute :: Duration where
  "Minute = 60 * Second"

definition Time_Sub :: "Time \<Rightarrow> Time \<Rightarrow> Duration" where
  "Time_Sub t u =
     (let d = t - u
      in if maxDuration < d then maxDuration
         else if d < minDuration then minDuration
         else d)"

section \<open>The image cache (services, image cache file)\<close>

type_synonym byte = "8 word"

record CacheEntry =
  OriginalImageBase64 :: string
  MimeType :: string
  CreatedAt :: Time

text \<open>
  The Go map \<open>entries map[string]*CacheEntry\<close> is an association list; the order of the
  list is the order in which a \<open>range\<close> loop happens to visit the map.  A Go map has one
  entry per key: \<open>cache_ok\<close>.  The mutex \<open>mu\<close> makes every operation atomic, so each
  operation is one function on the cache.
\<close>

record ImageCache =
  entries :: "(string \<times> CacheEntry) list"

definition cache_ok :: "ImageCache \<Rightarrow> bool" where
  "cache_ok c = distinct (map fst (entries c))"

definition NewImageCache :: ImageCache where
  "NewImageCache = \<lparr>entries = []\<rparr>"

definition hextable :: string where
  "hextable = ''0123456789abcdef''"

definition hex_EncodeToString :: "byte list \<Rightarrow> string" where
  "hex_EncodeToString src =
     concat (map (\<lambda>v. [hextable ! unat (drop_bit 4 v), hextable ! unat (v AND 15)]) src)"

text \<open>
  \<open>generateCacheID\<close>: a buffer of 16 zero bytes is filled by \<open>rand.Read\<close> and hex-encoded.
  The argument \<open>rnd\<close> is what the random source delivers.
\<close>

definition generateCacheID :: "byte list \<Rightarrow> string" where
  "generateCacheID rnd = hex_EncodeToString (take 16 (rnd @ replicate 16 0))"

definition Store :: "string \<Rightarrow> string \<Rightarrow> byte list \<Rightarrow> Time \<Rightarrow> ImageCache \<Rightarrow> string \<times> ImageCache" where
  "Store imageBase64 mimeType rnd now c =
     (let cacheID = generateCacheID rnd
      in (cacheID,
          c\<lparr>entries :=
              AList.update cacheID
                \<lparr>OriginalImageBase64 = imageBase64, MimeType = mimeType, CreatedAt = now\<rparr>
                (entries c)\<rparr>))"

text \<open>\<open>Get\<close> returns \<open>(entry, exists)\<close>: \<open>Some entry\<close> when the key exists, \<open>None\<close> otherwise.\<close>

definition Get :: "string \<Rightarrow> ImageCache \<Rightarrow> CacheEntry option" where
  "Get cacheID c = map_of (entries c) cacheID"

definition Delete :: "string \<Rightarrow> ImageCache \<Rightarrow> bool \<times> ImageCache" where
  "Delete cacheID c =
     (case map_of (entries c) cacheID of
        Some _ \<Rightarrow> (True, c\<lparr>entries := AList.delete cacheID (entries c)\<rparr>)
      | None \<Rightarrow> (False, c))"

definition expiry :: Duration where
  "expiry = 30 * Minute"

text \<open>
  The loop of \<open>cleanup\<close>: \<open>for id, entry := range c.entries\<close>.  The first list is what is
  still to be visited, the second is the map being mutated by \<open>delete\<close>.
\<close>

fun cleanup_loop :: "Time \<Rightarrow> (string \<times> CacheEntry) list \<Rightarrow> (string \<times> CacheEntry) list
    \<Rightarrow> (string \<times> CacheEntry) list" where
  "cleanup_loop now [] m = m"
| "cleanup_loop now ((cid, entry) # rest) m =
     cleanup_loop now rest
       (if expiry < Time_Sub now (CreatedAt entry) then AList.delete cid m else m)"

definition cleanup :: "Time \<Rightarrow> ImageCache \<Rightarrow> ImageCache" where
  "cleanup now c = c\<lparr>entries := cleanup_loop now (entries c) (entries c)\<rparr>"

definition Count :: "ImageCache \<Rightarrow> nat" where
  "Count c = length (entries c)"

text \<open>
  A history of the cache: the calls made on it, each with what it reads from the outside
  (the random bytes, the clock).  \<open>CallCleanup now\<close> is one tick of \<open>cleanupLoop\<close>.
\<close>

datatype cache_call =
    CallStore string string "byte list" Time
  | CallGet string
  | CallDelete string
  | CallCleanup Time
  | CallCount

fun run_call :: "cache_call \<Rightarrow> ImageCache \<Rightarrow> ImageCache" where
  "run_call (CallStore imageBase64 mimeType rnd now) c = snd (Store imageBase64 mimeType rnd now c)"
| "run_call (CallGet cacheID) c = c"
| "run_call (CallDelete cacheID) c = snd (Delete cacheID c)"
| "run_call (CallCleanup now) c = cleanup now c"
| "run_call CallCount c = c"

definition run_calls :: "cache_call list \<Rightarrow> ImageCache \<Rightarrow> ImageCache" where
  "run_calls calls c = fold run_call calls c"

text \<open>
  A call leaves the entry \<open>cacheID\<close>, created at \<open>created\<close>, alone: it is not a \<open>Delete\<close> of
  that id, not a \<open>Store\<close> whose random id is the same, and not a sweep at a moment when the
  entry is older than 30 minutes.
\<close>

fun spares :: "string \<Rightarrow> Time \<Rightarrow> cache_call \<Rightarrow> bool" where
  "spares cacheID created (CallStore imageBase64 mimeType rnd now) = (generateCacheID rnd \<noteq> cacheID)"
| "spares cacheID created (CallDelete k) = (k \<noteq> cacheID)"
| "spares cacheID created (CallCleanup now) = (now - created \<le> 30 * Minute)"
| "spares cacheID created (CallGet k) = True"
| "spares cacheID created CallCount = True"

text \<open>A call does not store under the id \<open>cacheID\<close>.\<close>

fun no_restore :: "string \<Rightarrow> cache_call \<Rightarrow> bool" where
  "no_restore cacheID (CallStore imageBase64 mimeType rnd now) = (generateCacheID rnd \<noteq> cacheID)"
| "no_restore cacheID call = True"

section \<open>Errors, panics and library functions\<close>

text \<open>
  A Go \<open>error\<close> value.  \<open>CorruptInputError\<close> is the error of \<open>encoding/base64\<close> (its byte
  offset is left out), \<open>ErrorString\<close> an error made from a text, \<open>WrapError p e\<close> the
  result of \<open>fmt.Errorf(p + "%w", e)\<close>.  Errors of the provider and of \<open>encoding/json\<close>
  are values of this type too.
\<close>

datatype error = CorruptInputError | ErrorString string | WrapError string error

datatype panic = SliceBoundsOutOfRange | IndexOutOfRange | NilPointerDereference

text \<open>What a call gives back: a value, an error, or a run-time panic that unwinds the caller.\<close>

datatype 'a result = Ok 'a | Err error | Panic panic

definition HasPrefix :: "string \<Rightarrow> string \<Rightarrow> bool" where
  "HasPrefix s pre = (take (length pre) s = pre)"

definition TrimPrefix :: "string \<Rightarrow> string \<Rightarrow> string" where
  "TrimPrefix s pre = (if HasPrefix s pre then drop (length pre) s else s)"

definition HasSuffix :: "string \<Rightarrow> string \<Rightarrow> bool" where
  "HasSuffix s suf = (length suf \<le> length s \<and> drop (length s - length suf) s = suf)"

definition TrimSuffix :: "string \<Rightarrow> string \<Rightarrow> string" where
  "TrimSuffix s suf = (if HasSuffix s suf then take (length s - length suf) s else s)"

text \<open>
  \<open>strings.TrimSpace\<close> removes the leading and the trailing white space that Unicode defines
  (\<open>unicode.IsSpace\<close>).  A Go string is a sequence of bytes, read as UTF-8, and so is a
  \<open>string\<close> here.  The white-space runes and their encodings:
  \<^item> one byte (\<open>asciiSpace\<close>): tab, LF, VT, FF, CR, space;
  \<^item> two bytes: U+0085 (\<open>C2 85\<close>) and U+00A0 (\<open>C2 A0\<close>);
  \<^item> three bytes: U+1680 (\<open>E1 9A 80\<close>), U+2000 to U+200A (\<open>E2 80 80\<close> to \<open>E2 80 8A\<close>),
    U+2028, U+2029, U+202F (\<open>E2 80 A8\<close>, \<open>E2 80 A9\<close>, \<open>E2 80 AF\<close>), U+205F (\<open>E2 81 9F\<close>)
    and U+3000 (\<open>E3 80 80\<close>).
  Any other byte sequence, a malformed or overlong one included, decodes to a rune that is
  no white space and ends the trimming.
\<close>

definition asciiSpace :: "char \<Rightarrow> bool" where
  "asciiSpace ch = (ch \<in> {CHR 0x09, CHR 0x0A, CHR 0x0B, CHR 0x0C, CHR 0x0D, CHR 0x20})"

definition isSpace2 :: "char \<Rightarrow> char \<Rightarrow> bool" where
  "isSpace2 a b = (a = CHR 0xC2 \<and> (b = CHR 0x85 \<or> b = CHR 0xA0))"

definition isSpace3 :: "char \<Rightarrow> char \<Rightarrow> char \<Rightarrow> bool" where
  "isSpace3 a b c =
     ((a = CHR 0xE1 \<and> b = CHR 0x9A \<and> c = CHR 0x80)
      \<or> (a = CHR 0xE2 \<and> b = CHR 0x80
          \<and> ((0x80 :: nat) \<le> of_char c \<and> of_char c \<le> (0x8A :: nat)
              \<or> c = CHR 0xA8 \<or> c = CHR 0xA9 \<or> c = CHR 0xAF))
      \<or> (a = CHR 0xE2 \<and> b = CHR 0x81 \<and> c = CHR 0x9F)
      \<or> (a = CHR 0xE3 \<and> b = CHR 0x80 \<and> c = CHR 0x80))"

text \<open>
  The white-space runes at the front of the bytes are dropped, one rune at a time.  With
  \<open>back\<close> the bytes are those of the string from its end, so that a rune of two or three bytes
  shows with its bytes in reverse order (\<open>DecodeLastRuneInString\<close>).
\<close>

fun trim_space_runes :: "bool \<Rightarrow> string \<Rightarrow> string" where
  "trim_space_runes back [] = []"
| "trim_space_runes back [a] = (if asciiSpace a then [] else [a])"
| "trim_space_runes back [a, b] =
     (if asciiSpace a then trim_space_runes back [b]
      else if (if back then isSpace2 b a else isSpace2 a b) then []
      else [a, b])"
| "trim_space_runes back (a # b # c # s) =
     (if asciiSpace a then trim_space_runes back (b # c # s)
      else if (if back then isSpace2 b a else isSpace2 a b) then trim_space_runes back (c # s)
      else if (if back then isSpace3 c b a else isSpace3 a b c) then trim_space_runes back s
      else a # b # c # s)"

definition TrimSpace :: "string \<Rightarrow> string" where
  "TrimSpace s = rev (trim_space_runes True (rev (trim_space_runes False s)))"

text \<open>\<open>strings.Cut(s, sep)\<close> returns \<open>(before, after, found)\<close> around the first \<open>sep\<close> in \<open>s\<close>.\<close>

fun Cut :: "string \<Rightarrow> string \<Rightarrow> string \<times> string \<times> bool" where
  "Cut [] sep = ([], [], sep = [])"
| "Cut (ch # s) sep =
     (if HasPrefix (ch # s) sep then ([], drop (length sep) (ch # s), True)
      else (case Cut s sep of (before, after, found) \<Rightarrow> (ch # before, after, found)))"

fun Join :: "string list \<Rightarrow> string \<Rightarrow> string" where
  "Join [] sep = []"
| "Join [x] sep = x"
| "Join (x # y # xs) sep = x @ sep @ Join (y # xs) sep"

subsection \<open>\<open>base64.StdEncoding\<close>\<close>

definition encodeStd :: string where
  "encodeStd = ''ABCDEFGHIJKLMNOPQRSTUVWXYZabcdefghijklmnopqrstuvwxyz0123456789+/''"

definition padChar :: char where
  "padChar = CHR ''=''"

fun index_from :: "byte \<Rightarrow> char \<Rightarrow> string \<Rightarrow> byte option" where
  "index_from i ch [] = None"
| "index_from i ch (x # xs) = (if ch = x then Some i else index_from (i + 1) ch xs)"

text \<open>\<open>decodeMap\<close>: the 6-bit value of a character of the alphabet, \<open>None\<close> for the entry \<open>0xff\<close>.\<close>

definition decodeMap :: "char \<Rightarrow> byte option" where
  "decodeMap ch = index_from 0 ch encodeStd"

definition is_newline :: "char \<Rightarrow> bool" where
  "is_newline ch = (ch = CHR 0x0A \<or> ch = CHR 0x0D)"

text \<open>
  The bytes of one quantum: \<open>dbuf\<close> holds the 2, 3 or 4 six-bit values read, the missing ones
  count as 0, and \<open>length dbuf - 1\<close> bytes come out.
\<close>

definition quantum_bytes :: "byte list \<Rightarrow> byte list" where
  "quantum_bytes dbuf =
     (let d = dbuf @ replicate (4 - length dbuf) 0;
          val = (push_bit 18 (ucast (d ! 0)) OR push_bit 12 (ucast (d ! 1))
                 OR push_bit 6 (ucast (d ! 2)) OR ucast (d ! 3) :: 64 word)
      in take (length dbuf - 1) [ucast (drop_bit 16 val), ucast (drop_bit 8 val), ucast val])"

text \<open>
  \<open>Decode\<close> with \<open>decodeQuantum\<close>: \<open>dbuf\<close> is the part of the current quantum already read.
  CR and LF are skipped everywhere; a character outside the alphabet is an error; padding
  is accepted only to complete the last quantum, and only newlines may follow it; the input
  may not end inside a quantum.
\<close>

fun decode_from :: "byte list \<Rightarrow> string \<Rightarrow> error + byte list" where
  "decode_from dbuf [] = (if dbuf = [] then Inr [] else Inl CorruptInputError)"
| "decode_from dbuf (ch # src) =
     (case decodeMap ch of
        Some out \<Rightarrow>
          (if length dbuf = 3
           then (case decode_from [] src of
                   Inl err \<Rightarrow> Inl err
                 | Inr rest \<Rightarrow> Inr (quantum_bytes (dbuf @ [out]) @ rest))
           else decode_from (dbuf @ [out]) src)
      | None \<Rightarrow>
          if is_newline ch then decode_from dbuf src
          else if ch \<noteq> padChar then Inl CorruptInputError
          else if length dbuf < 2 then Inl CorruptInputError
          else if length dbuf = 2
          then (case dropWhile is_newline src of
                  [] \<Rightarrow> Inl CorruptInputError
                | ch' # src' \<Rightarrow>
                    if ch' \<noteq> padChar then Inl CorruptInputError
                    else if dropWhile is_newline src' \<noteq> [] then Inl CorruptInputError
                    else Inr (quantum_bytes dbuf))
          else if dropWhile is_newline src \<noteq> [] then Inl CorruptInputError
          else Inr (quantum_bytes dbuf))"

definition base64_DecodeString :: "string \<Rightarrow> error + byte list" where
  "base64_DecodeString s = decode_from [] s"

definition encode6 :: "64 word \<Rightarrow> char" where
  "encode6 v = encodeStd ! unat (v AND 0x3F)"

fun base64_EncodeToString :: "byte list \<Rightarrow> string" where
  "base64_EncodeToString [] = []"
| "base64_EncodeToString [a] =
     (let val = (push_bit 16 (ucast a) :: 64 word)
      in [encode6 (drop_bit 18 val), encode6 (drop_bit 12 val), padChar, padChar])"
| "base64_EncodeToString [a, b] =
     (let val = (push_bit 16 (ucast a) OR push_bit 8 (ucast b) :: 64 word)
      in [encode6 (drop_bit 18 val), encode6 (drop_bit 12 val), encode6 (drop_bit 6 val), padChar])"
| "base64_EncodeToString (a # b # c # src) =
     (let val = (push_bit 16 (ucast a) OR push_bit 8 (ucast b) OR ucast c :: 64 word)
      in [encode6 (drop_bit 18 val), encode6 (drop_bit 12 val), encode6 (drop_bit 6 val), encode6 val]
         @ base64_EncodeToString src)"

section \<open>The Gemini service\<close>

subsection \<open>What the provider's client library exchanges\<close>

text \<open>
  A \<open>genai.Part\<close> is a text, a blob (media type and data), or a part of another kind (a
  function call, a reference to a file).  A response holds candidates; the \<open>Content\<close> of a
  candidate is a pointer, \<open>None\<close> when it is \<open>nil\<close> (a candidate that comes without content),
  and a content holds parts.  \<open>genai.ImageData(format, data)\<close> builds the blob of media type
  \<open>"image/" + format\<close>.
\<close>

datatype Part = Text string | Blob string "byte list" | OtherPart

record Content =
  Parts :: "Part list"

record Candidate =
  Content :: "Content option"

record GenerateContentResponse =
  Candidates :: "Candidate list"

definition genai_ImageData :: "string \<Rightarrow> byte list \<Rightarrow> Part" where
  "genai_ImageData format imageData = Blob (''image/'' @ format) imageData"

text \<open>The two generative models of the service: \<open>s.model\<close> and \<open>s.imageModel\<close>.\<close>

datatype Model = AnalysisModel | ImageModel

type_synonym provider_call = "Model \<times> Part list"

text \<open>
  The service.  \<open>GenerateContent\<close> is the provider behind both models: what it answers to a
  request, given the requests it has received before; an error stands for a transport
  failure as well as for the deadline of the request's context running out.
  \<open>RefineCutout\<close> is the method the handler of the same name calls; its body is not part of
  the sources at hand, so it is a parameter: it gets the cached original, the current
  cutout, the feedback, the media type and the log of provider calls, and gives back its
  result and the log.
\<close>

record GeminiService =
  GenerateContent :: "provider_call list \<Rightarrow> Model \<Rightarrow> Part list \<Rightarrow> error + GenerateContentResponse"
  RefineCutout :: "string \<Rightarrow> string \<Rightarrow> string \<Rightarrow> string \<Rightarrow> provider_call list
                     \<Rightarrow> string result \<times> provider_call list"

text \<open>One call \<open>model.GenerateContent(ctx, parts...)\<close>: the answer, and the call logged.\<close>

definition call_GenerateContent :: "GeminiService \<Rightarrow> Model \<Rightarrow> Part list \<Rightarrow> provider_call list
    \<Rightarrow> (error + GenerateContentResponse) \<times> provider_call list" where
  "call_GenerateContent s m parts log = (GenerateContent s log m parts, log @ [(m, parts)])"

record ClothingAnalysis =
  Category :: string
  Color :: string
  Material :: string
  Description :: string
  Tags :: "string list"
  Style :: "string list"
  Season :: "string list"

definition CategoryOptions :: "string list" where
  "CategoryOptions = [''Tops'', ''Bottoms'', ''Outerwear'', ''Dresses'', ''Shoes'', ''Accessories'', ''Bags'', ''Other'']"

definition ColorOptions :: "string list" where
  "ColorOptions = [''White'', ''Black'', ''Gray'', ''Beige'', ''Brown'', ''Navy'', ''Blue'', ''Green'',
     ''Red'', ''Pink'', ''Purple'', ''Yellow'', ''Orange'', ''Multi'']"

definition MaterialOptions :: "string list" where
  "MaterialOptions = [''Cotton'', ''Denim'', ''Silk'', ''Wool'', ''Leather'', ''Linen'', ''Polyester'',
     ''Cashmere'', ''Velvet'', ''Knit'', ''Chiffon'', ''Satin'']"

definition StyleOptions :: "string list" where
  "StyleOptions = [''Casual'', ''Formal'', ''Sporty'', ''Streetwear'', ''Vintage'', ''Minimalist'',
     ''Bohemian'', ''Preppy'', ''Romantic'', ''Edgy'']"

definition SeasonOptions :: "string list" where
  "SeasonOptions = [''Spring'', ''Summer'', ''Fall'', ''Winter'', ''All Season'']"

text \<open>
  The instruction templates are long fixed texts; each is cut down here to its opening words
  and the values that \<open>fmt.Sprintf\<close> fills in.
\<close>

definition taxonomy_text :: string where
  "taxonomy_text =
     '' Categories: '' @ Join CategoryOptions '', '' @ '' Colors: '' @ Join ColorOptions '', ''
     @ '' Materials: '' @ Join MaterialOptions '', '' @ '' Styles: '' @ Join StyleOptions '', ''
     @ '' Seasons: '' @ Join SeasonOptions '', ''"

definition analyze_prompt :: string where
  "analyze_prompt = ''Analyze this clothing item for the high-end digital wardrobe app.'' @ taxonomy_text"

definition refine_prompt :: "string \<Rightarrow> string" where
  "refine_prompt userFeedback =
     ''Refine the analysis of this clothing item based on user feedback: '' @ userFeedback @ taxonomy_text"

definition cutout_prompt :: string where
  "cutout_prompt = ''Isolate this clothing item on a pure white background (#FFFFFF).''"

definition collage_prompt :: string where
  "collage_prompt = ''Create a professional editorial flat-lay collage of these clothing items.''"

definition tryon_prompt :: string where
  "tryon_prompt = ''[VIRTUAL TRY-ON]: Photorealistically dress the person (first image) in the clothing items.''"

record AvatarMetrics =
  Gender :: string
  Height :: string
  Weight :: string
  Bust :: string
  Waist :: string
  Hips :: string
  Thigh :: string
  Calf :: string
  Features :: string

definition avatar_prompt :: "AvatarMetrics \<Rightarrow> string" where
  "avatar_prompt metrics =
     ''[IDENTITY & METRICS LOCK]: Generate a photorealistic full-body portrait of a '' @ Gender metrics
     @ '' Height: '' @ Height metrics @ '' Weight: '' @ Weight metrics @ '' Bust: '' @ Bust metrics
     @ '' Waist: '' @ Waist metrics @ '' Hips: '' @ Hips metrics @ '' Special features: '' @ Features metrics"

subsection \<open>Helpers\<close>

fun extractTextFromParts :: "Part list \<Rightarrow> string" where
  "extractTextFromParts [] = []"
| "extractTextFromParts (Text t # parts) = t"
| "extractTextFromParts (Blob mt d # parts) = extractTextFromParts parts"
| "extractTextFromParts (OtherPart # parts) = extractTextFromParts parts"

fun first_blob :: "Part list \<Rightarrow> byte list option" where
  "first_blob [] = None"
| "first_blob (Blob mt d # parts) = Some d"
| "first_blob (Text t # parts) = first_blob parts"
| "first_blob (OtherPart # parts) = first_blob parts"

text \<open>
  The argument is the pointer \<open>resp\<close>: \<open>None\<close> is \<open>nil\<close>.  \<open>resp.Candidates[0].Content.Parts\<close>
  dereferences the content of the first candidate: a \<open>nil\<close> content is a run-time panic.
\<close>

definition extractImageFromResponse :: "GenerateContentResponse option \<Rightarrow> string result" where
  "extractImageFromResponse resp =
     (case resp of
        None \<Rightarrow> Err (ErrorString ''no response from AI'')
      | Some r \<Rightarrow>
          (case Candidates r of
             [] \<Rightarrow> Err (ErrorString ''no response from AI'')
           | cand # _ \<Rightarrow>
               (case Content cand of
                  None \<Rightarrow> Panic NilPointerDereference
                | Some content \<Rightarrow>
                    (case first_blob (Parts content) of
                       Some d \<Rightarrow> Ok (base64_EncodeToString d)
                     | None \<Rightarrow> Err (ErrorString ''no image generated'')))))"

definition cleanJSONResponse :: "string \<Rightarrow> string" where
  "cleanJSONResponse text0 =
     (let text1 = TrimSpace text0;
          text2 = (if HasPrefix text1 ''```json'' then TrimPrefix text1 ''```json'' else text1);
          text3 = (if HasPrefix text2 ''```'' then TrimPrefix text2 ''```'' else text2);
          text4 = (if HasSuffix text3 ''```'' then TrimSuffix text3 ''```'' else text3)
      in TrimSpace text4)"

text \<open>
  \<open>decodeBase64Image\<close>.  On a decoding error the log line is formatted with
  \<open>imageBase64[:30]\<close>, the string left after the cut: slicing a string shorter than 30 bytes
  is a run-time panic.
\<close>

definition decodeBase64Image :: "string \<Rightarrow> byte list result" where
  "decodeBase64Image imageBase64 =
     (let imageBase64' = (case Cut imageBase64 '','' of
                            (before, after, found) \<Rightarrow> if found then after else imageBase64)
      in case base64_DecodeString imageBase64' of
           Inl err \<Rightarrow>
             if length imageBase64' < 30 then Panic SliceBoundsOutOfRange
             else Err (WrapError ''failed to decode base64 image: '' err)
         | Inr imageData \<Rightarrow> Ok imageData)"

subsection \<open>The methods of the service\<close>

text \<open>
  Every method takes the log of the provider calls made so far and gives back its result
  with the log as it leaves it.  \<open>json_Unmarshal\<close> is \<open>encoding/json\<close> filling a
  \<open>ClothingAnalysis\<close> from a text.
\<close>

type_synonym unmarshal = "string \<Rightarrow> error + ClothingAnalysis"

definition AnalyzeClothing :: "unmarshal \<Rightarrow> GeminiService \<Rightarrow> string \<Rightarrow> string \<Rightarrow> provider_call list
    \<Rightarrow> ClothingAnalysis result \<times> provider_call list" where
  "AnalyzeClothing json_Unmarshal s imageBase64 mimeType log =
     (case decodeBase64Image imageBase64 of
        Err err \<Rightarrow> (Err err, log)
      | Panic p \<Rightarrow> (Panic p, log)
      | Ok imageData \<Rightarrow>
          (let mimeType' = TrimPrefix mimeType ''image/''
           in case call_GenerateContent s AnalysisModel
                     [genai_ImageData mimeType' imageData, Text analyze_prompt] log of
                (Inl err, log') \<Rightarrow> (Err (WrapError ''failed to analyze image: '' err), log')
              | (Inr resp, log') \<Rightarrow>
                  (case Candidates resp of
                     [] \<Rightarrow> (Err (ErrorString ''no response from AI''), log')
                   | cand # _ \<Rightarrow>
                       (case Content cand of
                          None \<Rightarrow> (Panic NilPointerDereference, log')
                        | Some content \<Rightarrow>
                            if length (Parts content) = 0
                            then (Err (ErrorString ''no response from AI''), log')
                            else (case json_Unmarshal
                                         (cleanJSONResponse (extractTextFromParts (Parts content))) of
                                    Inl err \<Rightarrow> (Err (WrapError ''failed to parse analysis: '' err), log')
                                  | Inr analysis \<Rightarrow> (Ok analysis, log'))))))"

text \<open>
  \<open>resp.Candidates[0].Content.Parts\<close> is read without a check of the length and of the
  content: it panics on no candidate, and on a first candidate whose content is \<open>nil\<close>.
\<close>

definition RefineClothingAnalysis :: "unmarshal \<Rightarrow> GeminiService \<Rightarrow> string \<Rightarrow> string \<Rightarrow> string
    \<Rightarrow> provider_call list \<Rightarrow> ClothingAnalysis result \<times> provider_call list" where
  "RefineClothingAnalysis json_Unmarshal s imageBase64 userFeedback mimeType log =
     (case decodeBase64Image imageBase64 of
        Err err \<Rightarrow> (Err err, log)
      | Panic p \<Rightarrow> (Panic p, log)
      | Ok imageData \<Rightarrow>
          (case call_GenerateContent s AnalysisModel
                  [genai_ImageData mimeType imageData, Text (refine_prompt userFeedback)] log of
             (Inl err, log') \<Rightarrow> AnalyzeClothing json_Unmarshal s imageBase64 mimeType log'
           | (Inr resp, log') \<Rightarrow>
               (case Candidates resp of
                  [] \<Rightarrow> (Panic IndexOutOfRange, log')
                | cand # _ \<Rightarrow>
                    (case Content cand of
                       None \<Rightarrow> (Panic NilPointerDereference, log')
                     | Some content \<Rightarrow>
                         (case json_Unmarshal (cleanJSONResponse (extractTextFromParts (Parts content))) of
                            Inl err \<Rightarrow> AnalyzeClothing json_Unmarshal s imageBase64 mimeType log'
                          | Inr analysis \<Rightarrow> (Ok analysis, log'))))))"

definition GenerateCutout :: "GeminiService \<Rightarrow> string \<Rightarrow> string \<Rightarrow> provider_call list
    \<Rightarrow> string result \<times> provider_call list" where
  "GenerateCutout s imageBase64 mimeType log =
     (case decodeBase64Image imageBase64 of
        Err err \<Rightarrow> (Err err, log)
      | Panic p \<Rightarrow> (Panic p, log)
      | Ok imageData \<Rightarrow>
          (let mimeType' = TrimPrefix mimeType ''image/''
           in case call_GenerateContent s ImageModel
                     [genai_ImageData mimeType' imageData, Text cutout_prompt] log of
                (Inl err, log') \<Rightarrow> (Err (WrapError ''failed to generate cutout: '' err), log')
              | (Inr resp, log') \<Rightarrow> (extractImageFromResponse (Some resp), log')))"

definition GenerateAvatar :: "GeminiService \<Rightarrow> string \<Rightarrow> string \<Rightarrow> AvatarMetrics \<Rightarrow> provider_call list
    \<Rightarrow> string result \<times> provider_call list" where
  "GenerateAvatar s faceImageBase64 mimeType metrics log =
     (case decodeBase64Image faceImageBase64 of
        Err err \<Rightarrow> (Err err, log)
      | Panic p \<Rightarrow> (Panic p, log)
      | Ok imageData \<Rightarrow>
          (case call_GenerateContent s ImageModel
                  [genai_ImageData mimeType imageData, Text (avatar_prompt metrics)] log of
             (Inl err, log') \<Rightarrow> (Err (WrapError ''failed to generate avatar: '' err), log')
           | (Inr resp, log') \<Rightarrow> (extractImageFromResponse (Some resp), log')))"

text \<open>
  The loop over the item images of \<open>GenerateCollage\<close> and \<open>VirtualTryOn\<close>: each image goes
  through \<open>base64.StdEncoding.DecodeString\<close> as it is, and one that does not decode is
  skipped (\<open>continue\<close>).
\<close>

fun append_item_images :: "Part list \<Rightarrow> string list \<Rightarrow> Part list" where
  "append_item_images parts [] = parts"
| "append_item_images parts (img # imgs) =
     (case base64_DecodeString img of
        Inl err \<Rightarrow> append_item_images parts imgs
      | Inr imageData \<Rightarrow> append_item_images (parts @ [genai_ImageData ''image/jpeg'' imageData]) imgs)"

definition GenerateCollage :: "GeminiService \<Rightarrow> string list \<Rightarrow> provider_call list
    \<Rightarrow> string result \<times> provider_call list" where
  "GenerateCollage s itemImagesBase64 log =
     (let parts = append_item_images [] itemImagesBase64
      in if length parts = 0 then (Err (ErrorString ''no valid images provided''), log)
         else (case call_GenerateContent s ImageModel (parts @ [Text collage_prompt]) log of
                 (Inl err, log') \<Rightarrow> (Err (WrapError ''failed to generate collage: '' err), log')
               | (Inr resp, log') \<Rightarrow> (extractImageFromResponse (Some resp), log')))"

definition VirtualTryOn :: "GeminiService \<Rightarrow> string \<Rightarrow> string list \<Rightarrow> provider_call list
    \<Rightarrow> string result \<times> provider_call list" where
  "VirtualTryOn s avatarImageBase64 itemImagesBase64 log =
     (case base64_DecodeString avatarImageBase64 of
        Inl err \<Rightarrow> (Err (WrapError ''failed to decode avatar: '' err), log)
      | Inr avatarData \<Rightarrow>
          (let parts = append_item_images [genai_ImageData ''image/jpeg'' avatarData] itemImagesBase64
           in case call_GenerateContent s ImageModel (parts @ [Text tryon_prompt]) log of
                (Inl err, log') \<Rightarrow> (Err (WrapError ''failed to generate try-on: '' err), log')
              | (Inr resp, log') \<Rightarrow> (extractImageFromResponse (Some resp), log')))"

section \<open>The handlers\<close>

text \<open>
  The handler with its service: \<open>None\<close> is \<open>gemini == nil\<close>, the provider not configured.
  The world a handler runs in is the global image cache and the log of provider calls.
  A handler gets the result of \<open>ShouldBindJSON\<close> (an error, or the request with its required
  fields), and gives back what it writes with \<open>c.JSON\<close>, or the panic that leaves it.
  The deadline of each request's context shows as an error of the provider.
\<close>

record AIHandler =
  gemini :: "GeminiService option"

record World =
  imageCache :: ImageCache
  providerLog :: "provider_call list"

datatype jvalue = JString string | JStrings "string list" | JBool bool | JErrorText error

datatype body = H "(string \<times> jvalue) list" | AnalysisBody ClothingAnalysis

datatype outcome = Respond nat body | Crash panic

definition StatusOK :: nat where
  "StatusOK = 200"

definition StatusBadRequest :: nat where
  "StatusBadRequest = 400"

definition StatusInternalServerError :: nat where
  "StatusInternalServerError = 500"

record RefineAnalysisRequest =
  ra_ImageBase64 :: string
  ra_MimeType :: string
  ra_UserFeedback :: string

record GenerateCutoutRequest =
  gc_ImageBase64 :: string
  gc_MimeType :: string

record RefineCutoutRequest =
  rc_CacheID :: string
  rc_CurrentCutoutBase64 :: string
  rc_UserFeedback :: string
  rc_MimeType :: string

record ClearCacheRequest =
  cc_CacheID :: string

text \<open>
  \<open>RefineAnalysis\<close>.  The handler also reads the header \<open>Accept-Language\<close> and passes it on;
  the method of the service at hand has no such argument, and it is left out.
\<close>

definition AIHandler_RefineAnalysis :: "unmarshal \<Rightarrow> AIHandler \<Rightarrow> error + RefineAnalysisRequest
    \<Rightarrow> World \<Rightarrow> outcome \<times> World" where
  "AIHandler_RefineAnalysis json_Unmarshal h bound w =
     (case bound of
        Inl err \<Rightarrow> (Respond StatusBadRequest (H [(''error'', JErrorText err)]), w)
      | Inr req \<Rightarrow>
          (case gemini h of
             None \<Rightarrow>
               (Respond StatusOK
                  (H [(''category'', JString ''Tops''),
                      (''color'', JString ''White''),
                      (''material'', JString ''Cotton''),
                      (''description'', JString ''A refined piece based on your feedback.''),
                      (''tags'', JStrings [''refined'', ''custom'']),
                      (''style'', JStrings [''Casual'']),
                      (''season'', JStrings [''All Season''])]), w)
           | Some s \<Rightarrow>
               (case RefineClothingAnalysis json_Unmarshal s (ra_ImageBase64 req) (ra_UserFeedback req)
                       (ra_MimeType req) (providerLog w) of
                  (Err err, log') \<Rightarrow>
                    (Respond StatusInternalServerError (H [(''error'', JErrorText err)]),
                     w\<lparr>providerLog := log'\<rparr>)
                | (Panic p, log') \<Rightarrow> (Crash p, w\<lparr>providerLog := log'\<rparr>)
                | (Ok analysis, log') \<Rightarrow>
                    (Respond StatusOK (AnalysisBody analysis), w\<lparr>providerLog := log'\<rparr>))))"

text \<open>
  \<open>GenerateCutout\<close>: \<open>rnd\<close> and \<open>now\<close> are what \<open>Store\<close> reads from the random source and
  the clock.  A panic of the service leaves the handler at once, before \<open>cache.Delete\<close>.
\<close>

definition AIHandler_GenerateCutout :: "AIHandler \<Rightarrow> error + GenerateCutoutRequest \<Rightarrow> byte list \<Rightarrow> Time
    \<Rightarrow> World \<Rightarrow> outcome \<times> World" where
  "AIHandler_GenerateCutout h bound rnd now w =
     (case bound of
        Inl err \<Rightarrow> (Respond StatusBadRequest (H [(''error'', JErrorText err)]), w)
      | Inr req \<Rightarrow>
          (case Store (gc_ImageBase64 req) (gc_MimeType req) rnd now (imageCache w) of
             (cacheID, cache1) \<Rightarrow>
               (case gemini h of
                  None \<Rightarrow>
                    (Respond StatusOK
                       (H [(''message'', JString ''Cutout generation - Gemini not configured''),
                           (''imageUrl'', JString ''https://picsum.photos/400/600''),
                           (''cacheId'', JString cacheID)]),
                     w\<lparr>imageCache := cache1\<rparr>)
                | Some s \<Rightarrow>
                    (case GenerateCutout s (gc_ImageBase64 req) (gc_MimeType req) (providerLog w) of
                       (Err err, log') \<Rightarrow>
                         (Respond StatusInternalServerError (H [(''error'', JErrorText err)]),
                          w\<lparr>imageCache := snd (Delete cacheID cache1), providerLog := log'\<rparr>)
                     | (Panic p, log') \<Rightarrow>
                         (Crash p, w\<lparr>imageCache := cache1, providerLog := log'\<rparr>)
                     | (Ok imageBase64, log') \<Rightarrow>
                         (Respond StatusOK
                            (H [(''imageBase64'', JString imageBase64),
                                (''cacheId'', JString cacheID),
                                (''message'', JString ''Cutout generated successfully'')]),
                          w\<lparr>imageCache := cache1, providerLog := log'\<rparr>)))))"

definition AIHandler_RefineCutout :: "AIHandler \<Rightarrow> error + RefineCutoutRequest \<Rightarrow> World
    \<Rightarrow> outcome \<times> World" where
  "AIHandler_RefineCutout h bound w =
     (case bound of
        Inl err \<Rightarrow> (Respond StatusBadRequest (H [(''error'', JErrorText err)]), w)
      | Inr req \<Rightarrow>
          (case Get (rc_CacheID req) (imageCache w) of
             None \<Rightarrow>
               (Respond StatusBadRequest
                  (H [(''error'', JString ''Cache expired or not found. Please regenerate from original.'')]),
                w)
           | Some entry \<Rightarrow>
               (case gemini h of
                  None \<Rightarrow>
                    (Respond StatusOK
                       (H [(''message'', JString ''Cutout refinement - Gemini not configured''),
                           (''imageBase64'', JString (rc_CurrentCutoutBase64 req)),
                           (''cacheId'', JString (rc_CacheID req))]),
                     w)
                | Some s \<Rightarrow>
                    (case RefineCutout s (OriginalImageBase64 entry) (rc_CurrentCutoutBase64 req)
                            (rc_UserFeedback req) (rc_MimeType req) (providerLog w) of
                       (Err err, log') \<Rightarrow>
                         (Respond StatusInternalServerError (H [(''error'', JErrorText err)]),
                          w\<lparr>providerLog := log'\<rparr>)
                     | (Panic p, log') \<Rightarrow> (Crash p, w\<lparr>providerLog := log'\<rparr>)
                     | (Ok imageBase64, log') \<Rightarrow>
                         (Respond StatusOK
                            (H [(''imageBase64'', JString imageBase64),
                                (''cacheId'', JString (rc_CacheID req)),
                                (''message'', JString ''Cutout refined successfully'')]),
                          w\<lparr>providerLog := log'\<rparr>)))))"

definition AIHandler_ClearImageCache :: "error + ClearCacheRequest \<Rightarrow> World \<Rightarrow> outcome \<times> World" where
  "AIHandler_ClearImageCache bound w =
     (case bound of
        Inl err \<Rightarrow> (Respond StatusBadRequest (H [(''error'', JErrorText err)]), w)
      | Inr req \<Rightarrow>
          (case Delete (cc_CacheID req) (imageCache w) of
             (deleted, cache1) \<Rightarrow>
               (Respond StatusOK (H [(''success'', JBool deleted), (''message'', JString ''Cache cleared'')]),
                w\<lparr>imageCache := cache1\<rparr>)))"

text \<open>The status of a response, and the value of a field of its JSON object.\<close>

fun status_of :: "outcome \<Rightarrow> nat option" where
  "status_of (Respond st b) = Some st"
| "status_of (Crash p) = None"

fun field_of :: "outcome \<Rightarrow> string \<Rightarrow> jvalue option" where
  "field_of (Respond st (H kvs)) k = map_of kvs k"
| "field_of (Respond st (AnalysisBody a)) k = None"
| "field_of (Crash p) k = None"

section \<open>Example providers\<close>

text \<open>
  Providers and a JSON decoder to run the service on: one whose every call fails (as when the
  deadline passes), one that answers with no candidate, one that answers with a candidate
  without content, one that answers with a text that is no image, and one that answers with
  the image of the three bytes \<open>ABC\<close>.  The JSON decoder rejects every text.
\<close>

definition example_unmarshal :: unmarshal where
  "example_unmarshal = (\<lambda>text. Inl (ErrorString ''unexpected end of JSON input''))"

definition example_refine :: "string \<Rightarrow> string \<Rightarrow> string \<Rightarrow> string \<Rightarrow> provider_call list
    \<Rightarrow> string result \<times> provider_call list" where
  "example_refine = (\<lambda>original current feedback mimeType log. (Ok ''QUJD'', log @ [(ImageModel, [Text feedback])]))"

definition example_failing_service :: GeminiService where
  "example_failing_service =
     \<lparr>GenerateContent = (\<lambda>log m parts. Inl (ErrorString ''context deadline exceeded'')),
      RefineCutout = example_refine\<rparr>"

definition example_empty_service :: GeminiService where
  "example_empty_service =
     \<lparr>GenerateContent = (\<lambda>log m parts. Inr \<lparr>Candidates = []\<rparr>),
      RefineCutout = example_refine\<rparr>"

definition example_nil_content_service :: GeminiService where
  "example_nil_content_service =
     \<lparr>GenerateContent = (\<lambda>log m parts. Inr \<lparr>Candidates = [\<lparr>Content = None\<rparr>]\<rparr>),
      RefineCutout = example_refine\<rparr>"

definition example_text_service :: GeminiService where
  "example_text_service =
     \<lparr>GenerateContent = (\<lambda>log m parts. Inr \<lparr>Candidates = [\<lparr>Content = Some \<lparr>Parts = [Text ''I cannot do that'']\<rparr>\<rparr>]\<rparr>),
      RefineCutout = example_refine\<rparr>"

definition example_image_service :: GeminiService where
  "example_image_service =
     \<lparr>GenerateContent =
        (\<lambda>log m parts. Inr \<lparr>Candidates = [\<lparr>Content = Some \<lparr>Parts = [Blob ''image/png'' [65, 66, 67]]\<rparr>\<rparr>]\<rparr>),
      RefineCutout = example_refine\<rparr>"




section \<open>Facts about the cache\<close>

lemma expired_iff: "expiry < Time_Sub now created \<longleftrightarrow> 30 * Minute < now - created"
  by (simp add: Time_Sub_def expiry_def Minute_def Second_def maxDuration_def minDuration_def Let_def)

lemma cleanup_loop_filter:
  "cleanup_loop now ks m =
     filter (\<lambda>(k, e). \<not> (\<exists>e'. (k, e') \<in> set ks \<and> expiry < Time_Sub now (CreatedAt e'))) m"
proof (induction ks arbitrary: m)
  case Nil
  then show ?case by simp
next
  case (Cons a ks)
  obtain cid entry where a: "a = (cid, entry)" by (cases a)
  show ?case
  proof (cases "expiry < Time_Sub now (CreatedAt entry)")
    case True
    have "cleanup_loop now (a # ks) m = cleanup_loop now ks (AList.delete cid m)"
      using a True by simp
    also have "\<dots> = filter (\<lambda>(k, e). \<not> (\<exists>e'. (k, e') \<in> set ks \<and> expiry < Time_Sub now (CreatedAt e')))
                      (filter (\<lambda>(k, e). k \<noteq> cid) m)"
      by (auto simp: Cons.IH AList.delete_eq split_def intro!: filter_cong)
    also have "\<dots> = filter (\<lambda>(k, e). \<not> (\<exists>e'. (k, e') \<in> set (a # ks) \<and> expiry < Time_Sub now (CreatedAt e'))) m"
      using a True by (auto intro!: filter_cong)
    finally show ?thesis .
  next
    case False
    have "cleanup_loop now (a # ks) m = cleanup_loop now ks m"
      using a False by simp
    also have "\<dots> = filter (\<lambda>(k, e). \<not> (\<exists>e'. (k, e') \<in> set ks \<and> expiry < Time_Sub now (CreatedAt e'))) m"
      by (rule Cons.IH)
    also have "\<dots> = filter (\<lambda>(k, e). \<not> (\<exists>e'. (k, e') \<in> set (a # ks) \<and> expiry < Time_Sub now (CreatedAt e'))) m"
      using a False by (auto intro!: filter_cong)
    finally show ?thesis .
  qed
qed

lemma cleanup_entries:
  assumes "cache_ok c"
  shows "entries (cleanup now c) =
           filter (\<lambda>(k, e). \<not> 30 * Minute < now - CreatedAt e) (entries c)"
proof -
  have d: "distinct (map fst (entries c))"
    using assms by (simp add: cache_ok_def)
  have "filter (\<lambda>(k, e). \<not> (\<exists>e'. (k, e') \<in> set (entries c) \<and> expiry < Time_Sub now (CreatedAt e')))
          (entries c)
        = filter (\<lambda>(k, e). \<not> 30 * Minute < now - CreatedAt e) (entries c)"
  proof (rule filter_cong [OF refl])
    fix x assume x: "x \<in> set (entries c)"
    obtain k e where xe: "x = (k, e)" by (cases x)
    have "\<And>e'. (k, e') \<in> set (entries c) \<Longrightarrow> e' = e"
      using d x xe by (meson eq_key_imp_eq_value)
    then have "(\<exists>e'. (k, e') \<in> set (entries c) \<and> expiry < Time_Sub now (CreatedAt e'))
                 \<longleftrightarrow> expiry < Time_Sub now (CreatedAt e)"
      using x xe by blast
    then show "(case x of (k, e) \<Rightarrow> \<not> (\<exists>e'. (k, e') \<in> set (entries c) \<and> expiry < Time_Sub now (CreatedAt e')))
               = (case x of (k, e) \<Rightarrow> \<not> 30 * Minute < now - CreatedAt e)"
      using xe by (auto simp: expired_iff)
  qed
  then show ?thesis
    by (simp add: cleanup_def cleanup_loop_filter)
qed

lemma map_of_filter_snd:
  "distinct (map fst al) \<Longrightarrow>
     map_of (filter (\<lambda>(k, e). P e) al) k =
       (case map_of al k of None \<Rightarrow> None | Some e \<Rightarrow> if P e then Some e else None)"
proof (induction al)
  case Nil
  then show ?case by simp
next
  case (Cons a al)
  obtain k' e' where a: "a = (k', e')" by (cases a)
  have notin: "k' \<notin> fst ` set al" and d: "distinct (map fst al)"
    using Cons.prems a by auto
  have none: "map_of al k' = None"
    using notin by (simp add: map_of_eq_None_iff)
  show ?case
    using a Cons.IH [OF d] none by (auto split: option.splits)
qed

lemma Get_cleanup:
  assumes "cache_ok c"
  shows "Get k (cleanup now c) =
           (case Get k c of
              None \<Rightarrow> None
            | Some e \<Rightarrow> if 30 * Minute < now - CreatedAt e then None else Some e)"
proof -
  have d: "distinct (map fst (entries c))"
    using assms by (simp add: cache_ok_def)
  show ?thesis
    unfolding Get_def cleanup_entries [OF assms]
    using map_of_filter_snd [OF d, of "\<lambda>e. \<not> 30 * Minute < now - CreatedAt e" k]
    by (simp split: option.splits)
qed

lemma cache_ok_New: "cache_ok NewImageCache"
  by (simp add: cache_ok_def NewImageCache_def)

lemma cache_ok_Store: "cache_ok c \<Longrightarrow> cache_ok (snd (Store p m rnd now c))"
  by (simp add: cache_ok_def Store_def Let_def distinct_update)

lemma cache_ok_Delete: "cache_ok c \<Longrightarrow> cache_ok (snd (Delete k c))"
  by (simp add: cache_ok_def Delete_def distinct_delete split: option.splits)

lemma cache_ok_cleanup: "cache_ok c \<Longrightarrow> cache_ok (cleanup now c)"
proof -
  assume ok: "cache_ok c"
  then have "distinct (map fst (entries c))" by (simp add: cache_ok_def)
  then have "distinct (map fst (filter (\<lambda>(k, e). \<not> 30 * Minute < now - CreatedAt e) (entries c)))"
    by (rule distinct_map_filter)
  then show ?thesis
    by (simp add: cache_ok_def cleanup_entries [OF ok])
qed

lemma cache_ok_run_call: "cache_ok c \<Longrightarrow> cache_ok (run_call call c)"
  by (cases call) (simp_all add: cache_ok_Store cache_ok_Delete cache_ok_cleanup)

lemma cache_ok_run_calls: "cache_ok c \<Longrightarrow> cache_ok (run_calls calls c)"
  unfolding run_calls_def
  by (induction calls arbitrary: c) (simp_all add: cache_ok_run_call)

lemma Get_Store: "Get k (snd (Store p m rnd now c)) =
    (if k = generateCacheID rnd
     then Some \<lparr>OriginalImageBase64 = p, MimeType = m, CreatedAt = now\<rparr>
     else Get k c)"
  by (simp add: Get_def Store_def Let_def update_conv')

lemma Get_Delete: "Get k (snd (Delete k' c)) = (if k = k' then None else Get k c)"
  by (simp add: Get_def Delete_def delete_conv' split: option.splits)

lemma Get_run_call_spared:
  assumes ok: "cache_ok c" and g: "Get cid c = Some e" and sp: "spares cid (CreatedAt e) call"
  shows "Get cid (run_call call c) = Some e"
proof (cases call)
  case (CallStore p m rnd now)
  then show ?thesis using g sp by (simp add: Get_Store)
next
  case (CallGet k)
  then show ?thesis using g by simp
next
  case (CallDelete k)
  then show ?thesis using g sp by (simp add: Get_Delete)
next
  case (CallCleanup now)
  then show ?thesis using g sp by (simp add: Get_cleanup [OF ok])
next
  case CallCount
  then show ?thesis using g by simp
qed

lemma Get_run_calls_spared:
  assumes "cache_ok c" and "Get cid c = Some e" and "list_all (spares cid (CreatedAt e)) calls"
  shows "Get cid (run_calls calls c) = Some e"
  using assms unfolding run_calls_def
proof (induction calls arbitrary: c)
  case Nil
  then show ?case by simp
next
  case (Cons call calls)
  have "Get cid (run_call call c) = Some e"
    using Cons.prems by (simp add: Get_run_call_spared)
  moreover have "cache_ok (run_call call c)"
    using Cons.prems by (simp add: cache_ok_run_call)
  ultimately show ?case
    using Cons.IH [of "run_call call c"] Cons.prems by simp
qed

lemma Get_cleanup_loop_None:
  "map_of m k = None \<Longrightarrow> map_of (cleanup_loop now ks m) k = None"
  by (simp add: cleanup_loop_filter map_of_eq_None_iff image_iff) 

lemma Get_run_call_absent:
  assumes "Get cid c = None" and "no_restore cid call"
  shows "Get cid (run_call call c) = None"
proof (cases call)
  case (CallStore p m rnd now)
  then show ?thesis using assms by (simp add: Get_Store)
next
  case (CallDelete k)
  then show ?thesis using assms by (simp add: Get_Delete)
next
  case (CallCleanup now)
  then show ?thesis using assms by (simp add: Get_def cleanup_def Get_cleanup_loop_None)
qed (use assms in simp_all)

lemma Get_run_calls_absent:
  assumes "Get cid c = None" and "list_all (no_restore cid) calls"
  shows "Get cid (run_calls calls c) = None"
  using assms unfolding run_calls_def
  by (induction calls arbitrary: c) (simp_all add: Get_run_call_absent)

lemma Delete_absent: "Get k c = None \<Longrightarrow> Delete k c = (False, c)"
  by (simp add: Get_def Delete_def)

lemma Delete_present: "Get k c = Some e \<Longrightarrow> Delete k c = (True, c\<lparr>entries := AList.delete k (entries c)\<rparr>)"
  by (simp add: Get_def Delete_def)

lemma generateCacheID_Nil: "generateCacheID [] = ''00000000000000000000000000000000''"
  by (simp add: generateCacheID_def hex_EncodeToString_def hextable_def eval_nat_numeral)

section \<open>Claims about the cache\<close>

text \<open>
  C3, as the code has it.  \<open>Store\<close> returns an id under which \<open>Get\<close> finds the payload and
  the media subtype that were stored, with the time of creation.  The entry stays so through
  any later calls on the cache, as long as none of them deletes that id, stores under the
  same random id again, or is a sweep that runs when the entry is older than 30 minutes.
  \<open>Get\<close> and \<open>Delete\<close> never look at the clock: what ends the life of an entry is an
  explicit \<open>Delete\<close> or the first sweep at which it is older than 30 minutes, after which
  \<open>Get\<close> finds nothing.
\<close>

theorem Store_Get_until_deleted_or_swept:
  assumes "cache_ok c"
    and "Store p m rnd now c = (cid, c1)"
    and "list_all (spares cid now) calls"
  shows "Get cid (run_calls calls c1) = Some \<lparr>OriginalImageBase64 = p, MimeType = m, CreatedAt = now\<rparr>
       \<and> (\<forall>t. 30 * Minute < t - now \<longrightarrow> Get cid (cleanup t (run_calls calls c1)) = None)
       \<and> Get cid (snd (Delete cid (run_calls calls c1))) = None"
proof -
  let ?e = "\<lparr>OriginalImageBase64 = p, MimeType = m, CreatedAt = now\<rparr>"
  have cid: "cid = generateCacheID rnd" and c1: "c1 = snd (Store p m rnd now c)"
    using assms(2) by (auto simp: Store_def Let_def)
  have ok1: "cache_ok c1"
    using assms(1) c1 by (simp add: cache_ok_Store)
  have g1: "Get cid c1 = Some ?e"
    using cid c1 by (simp add: Get_Store)
  have g: "Get cid (run_calls calls c1) = Some ?e"
    using Get_run_calls_spared [OF ok1 g1] assms(3) by simp
  have ok2: "cache_ok (run_calls calls c1)"
    using ok1 by (rule cache_ok_run_calls)
  have "\<forall>t. 30 * Minute < t - now \<longrightarrow> Get cid (cleanup t (run_calls calls c1)) = None"
    using g by (simp add: Get_cleanup [OF ok2])
  then show ?thesis
    using g by (simp add: Get_Delete)
qed

text \<open>The theorem at a concrete history: a store into the new cache, then a read, a sweep
  at 30 minutes and the deletion of another id.\<close>

theorem Store_Get_until_deleted_or_swept_witness:
  "cache_ok NewImageCache
   \<and> Store ''QUJD'' ''jpeg'' [] (1 * Minute) NewImageCache
       = (''00000000000000000000000000000000'',
          \<lparr>entries = [(''00000000000000000000000000000000'',
                       \<lparr>OriginalImageBase64 = ''QUJD'', MimeType = ''jpeg'', CreatedAt = 1 * Minute\<rparr>)]\<rparr>)
   \<and> list_all (spares ''00000000000000000000000000000000'' (1 * Minute))
        [CallGet ''00000000000000000000000000000000'', CallCleanup (30 * Minute), CallDelete ''ff'']
   \<and> Get ''00000000000000000000000000000000''
        (run_calls [CallGet ''00000000000000000000000000000000'', CallCleanup (30 * Minute), CallDelete ''ff'']
           \<lparr>entries = [(''00000000000000000000000000000000'',
                        \<lparr>OriginalImageBase64 = ''QUJD'', MimeType = ''jpeg'', CreatedAt = 1 * Minute\<rparr>)]\<rparr>)
       = Some \<lparr>OriginalImageBase64 = ''QUJD'', MimeType = ''jpeg'', CreatedAt = 1 * Minute\<rparr>"
proof -
  let ?cid = "''00000000000000000000000000000000''"
  let ?c1 = "\<lparr>entries = [(?cid, \<lparr>OriginalImageBase64 = ''QUJD'', MimeType = ''jpeg'', CreatedAt = 1 * Minute\<rparr>)]\<rparr>"
  let ?calls = "[CallGet ?cid, CallCleanup (30 * Minute), CallDelete ''ff'']"
  have h1: "cache_ok NewImageCache" by (rule cache_ok_New)
  have h2: "Store ''QUJD'' ''jpeg'' [] (1 * Minute) NewImageCache = (?cid, ?c1)"
    by (simp add: Store_def Let_def NewImageCache_def generateCacheID_Nil)
  have h3: "list_all (spares ?cid (1 * Minute)) ?calls"
    by (simp add: Minute_def Second_def)
  show ?thesis
    using h1 h2 h3 Store_Get_until_deleted_or_swept [OF h1 h2 h3] by simp
qed

text \<open>
  C3 as stated fails: an entry is still visible when more than 30 minutes have passed since
  its creation.  The entry is created at minute 1; the sweeps at minutes 5 and 30 find it
  29 minutes old at most and keep it; a \<open>Get\<close> at minute 34, before the sweep of minute 35,
  reads the same cache and returns the entry, now 33 minutes old.
\<close>

theorem entry_visible_after_thirty_minutes:
  "Get (generateCacheID [])
     (run_calls [CallStore ''QUJD'' ''jpeg'' [] (1 * Minute), CallCleanup (5 * Minute), CallCleanup (30 * Minute)]
        NewImageCache)
     = Some \<lparr>OriginalImageBase64 = ''QUJD'', MimeType = ''jpeg'', CreatedAt = 1 * Minute\<rparr>
   \<and> 30 * Minute < Time_Sub (34 * Minute) (1 * Minute)"
  by (simp add: run_calls_def Store_def Let_def NewImageCache_def generateCacheID_Nil cleanup_def Get_def
        expiry_def Time_Sub_def Minute_def Second_def maxDuration_def minDuration_def)

text \<open>
  C4.  After a sweep at time \<open>now\<close> the cache holds exactly the entries whose age at that
  time is at most 30 minutes, in their order and unchanged: \<open>Get\<close> finds nothing for an
  entry older than 30 minutes, and the same entry as before for any other.  The saturation
  of \<open>Time.Sub\<close> does not show: the age is the plain difference of the clock readings.
\<close>

theorem cleanup_keeps_exactly_unexpired:
  assumes "cache_ok c"
  shows "entries (cleanup now c) = filter (\<lambda>(k, e). now - CreatedAt e \<le> 30 * Minute) (entries c)
       \<and> Get k (cleanup now c) =
           (case Get k c of
              None \<Rightarrow> None
            | Some e \<Rightarrow> if 30 * Minute < now - CreatedAt e then None else Some e)
       \<and> cache_ok (cleanup now c)"
proof -
  have "entries (cleanup now c) = filter (\<lambda>(k, e). now - CreatedAt e \<le> 30 * Minute) (entries c)"
    using cleanup_entries [OF assms, of now] by (simp add: not_less)
  then show ?thesis
    using Get_cleanup [OF assms, of k now] cache_ok_cleanup [OF assms, of now] by simp
qed

text \<open>The theorem at a cache of two entries, swept at minute 35: the entry of minute 0 goes,
  the entry of minute 10 stays.\<close>

theorem cleanup_keeps_exactly_unexpired_witness:
  "cache_ok \<lparr>entries = [(''a'', \<lparr>OriginalImageBase64 = ''QUJD'', MimeType = ''jpeg'', CreatedAt = 0\<rparr>),
                         (''b'', \<lparr>OriginalImageBase64 = ''QUI='', MimeType = ''png'', CreatedAt = 10 * Minute\<rparr>)]\<rparr>
   \<and> Get ''a'' (cleanup (35 * Minute)
         \<lparr>entries = [(''a'', \<lparr>OriginalImageBase64 = ''QUJD'', MimeType = ''jpeg'', CreatedAt = 0\<rparr>),
                     (''b'', \<lparr>OriginalImageBase64 = ''QUI='', MimeType = ''png'', CreatedAt = 10 * Minute\<rparr>)]\<rparr>) = None
   \<and> Get ''b'' (cleanup (35 * Minute)
         \<lparr>entries = [(''a'', \<lparr>OriginalImageBase64 = ''QUJD'', MimeType = ''jpeg'', CreatedAt = 0\<rparr>),
                     (''b'', \<lparr>OriginalImageBase64 = ''QUI='', MimeType = ''png'', CreatedAt = 10 * Minute\<rparr>)]\<rparr>)
       = Some \<lparr>OriginalImageBase64 = ''QUI='', MimeType = ''png'', CreatedAt = 10 * Minute\<rparr>"
proof -
  let ?c = "\<lparr>entries = [(''a'', \<lparr>OriginalImageBase64 = ''QUJD'', MimeType = ''jpeg'', CreatedAt = 0\<rparr>),
                         (''b'', \<lparr>OriginalImageBase64 = ''QUI='', MimeType = ''png'', CreatedAt = 10 * Minute\<rparr>)]\<rparr>"
  have h: "cache_ok ?c" by (simp add: cache_ok_def)
  show ?thesis
    using h cleanup_keeps_exactly_unexpired [OF h, of "35 * Minute" "''a''"]
      cleanup_keeps_exactly_unexpired [OF h, of "35 * Minute" "''b''"]
    by (simp add: Get_def Minute_def Second_def)
qed

text \<open>
  C5, as the code has it.  For an id returned by \<open>Store\<close> whose entry is still in the cache
  (no sweep has run while it was older than 30 minutes, and the id was not stored again),
  the first \<open>Delete\<close> returns true; after it, through any calls that do not store under that
  id again, \<open>Get\<close> finds nothing and \<open>Delete\<close> returns false and leaves the cache as it is.
  \<open>Delete\<close> of any id that is not in the cache returns false and changes nothing, and the
  clear-cache handler then answers with \<open>success = false\<close> and leaves the world as it is.
\<close>

theorem Delete_true_exactly_once:
  assumes "cache_ok c"
    and "Store p m rnd now c = (cid, c1)"
    and "list_all (spares cid now) between"
    and "Delete cid (run_calls between c1) = (deleted, c2)"
    and "list_all (no_restore cid) later"
  shows "deleted
       \<and> Get cid (run_calls later c2) = None
       \<and> Delete cid (run_calls later c2) = (False, run_calls later c2)
       \<and> (\<forall>k c'. Get k c' = None \<longrightarrow> Delete k c' = (False, c'))
       \<and> (\<forall>w. Get cid (imageCache w) = None \<longrightarrow>
              AIHandler_ClearImageCache (Inr \<lparr>cc_CacheID = cid\<rparr>) w
                = (Respond StatusOK (H [(''success'', JBool False), (''message'', JString ''Cache cleared'')]), w))"
proof -
  let ?e = "\<lparr>OriginalImageBase64 = p, MimeType = m, CreatedAt = now\<rparr>"
  have cid: "cid = generateCacheID rnd" and c1: "c1 = snd (Store p m rnd now c)"
    using assms(2) by (auto simp: Store_def Let_def)
  have ok1: "cache_ok c1"
    using assms(1) c1 by (simp add: cache_ok_Store)
  have g1: "Get cid c1 = Some ?e"
    using cid c1 by (simp add: Get_Store)
  have g: "Get cid (run_calls between c1) = Some ?e"
    using Get_run_calls_spared [OF ok1 g1] assms(3) by simp
  have d: "deleted" and c2: "c2 = snd (Delete cid (run_calls between c1))"
    using assms(4) Delete_present [OF g] by auto
  have "Get cid c2 = None"
    using c2 by (simp add: Get_Delete)
  then have gone: "Get cid (run_calls later c2) = None"
    using assms(5) by (rule Get_run_calls_absent)
  have absent: "\<forall>k c'. Get k c' = None \<longrightarrow> Delete k c' = (False, c')"
    by (simp add: Delete_absent)
  have "\<forall>w. Get cid (imageCache w) = None \<longrightarrow>
          AIHandler_ClearImageCache (Inr \<lparr>cc_CacheID = cid\<rparr>) w
            = (Respond StatusOK (H [(''success'', JBool False), (''message'', JString ''Cache cleared'')]), w)"
    by (simp add: AIHandler_ClearImageCache_def Delete_absent)
  then show ?thesis
    using d gone absent by (simp add: Delete_absent)
qed

text \<open>The theorem at a concrete history: store, a read and a sweep at minute 10, the first
  deletion, then a second deletion and a sweep at minute 40, and a third deletion.\<close>

theorem Delete_true_exactly_once_witness:
  "cache_ok NewImageCache
   \<and> Store ''QUJD'' ''jpeg'' [] 0 NewImageCache
       = (''00000000000000000000000000000000'',
          \<lparr>entries = [(''00000000000000000000000000000000'',
                       \<lparr>OriginalImageBase64 = ''QUJD'', MimeType = ''jpeg'', CreatedAt = 0\<rparr>)]\<rparr>)
   \<and> list_all (spares ''00000000000000000000000000000000'' 0)
        [CallGet ''00000000000000000000000000000000'', CallCleanup (10 * Minute)]
   \<and> Delete ''00000000000000000000000000000000''
        (run_calls [CallGet ''00000000000000000000000000000000'', CallCleanup (10 * Minute)]
           \<lparr>entries = [(''00000000000000000000000000000000'',
                        \<lparr>OriginalImageBase64 = ''QUJD'', MimeType = ''jpeg'', CreatedAt = 0\<rparr>)]\<rparr>)
       = (True, \<lparr>entries = []\<rparr>)
   \<and> list_all (no_restore ''00000000000000000000000000000000'')
        [CallDelete ''00000000000000000000000000000000'', CallCleanup (40 * Minute)]
   \<and> Delete ''00000000000000000000000000000000''
        (run_calls [CallDelete ''00000000000000000000000000000000'', CallCleanup (40 * Minute)] \<lparr>entries = []\<rparr>)
       = (False, \<lparr>entries = []\<rparr>)"
proof -
  let ?cid = "''00000000000000000000000000000000''"
  let ?c1 = "\<lparr>entries = [(?cid, \<lparr>OriginalImageBase64 = ''QUJD'', MimeType = ''jpeg'', CreatedAt = 0\<rparr>)]\<rparr>"
  let ?between = "[CallGet ?cid, CallCleanup (10 * Minute)]"
  let ?later = "[CallDelete ?cid, CallCleanup (40 * Minute)]"
  have h1: "cache_ok NewImageCache" by (rule cache_ok_New)
  have h2: "Store ''QUJD'' ''jpeg'' [] 0 NewImageCache = (?cid, ?c1)"
    by (simp add: Store_def Let_def NewImageCache_def generateCacheID_Nil)
  have h3: "list_all (spares ?cid 0) ?between"
    by (simp add: Minute_def Second_def)
  have h4: "Delete ?cid (run_calls ?between ?c1) = (True, \<lparr>entries = []\<rparr>)"
    by (simp add: run_calls_def cleanup_def Delete_def expiry_def Time_Sub_def Minute_def Second_def
          maxDuration_def minDuration_def)
  have h5: "list_all (no_restore ?cid) ?later"
    by simp
  have r: "run_calls ?later \<lparr>entries = []\<rparr> = \<lparr>entries = []\<rparr>"
    by (simp add: run_calls_def cleanup_def Delete_def)
  show ?thesis
    using h1 h2 h3 h4 h5 r Delete_true_exactly_once [OF h1 h2 h3 h4 h5] by simp
qed

text \<open>
  C5 as stated fails: the first \<open>Delete\<close> of an id returned by \<open>Store\<close> returns false when a
  sweep has removed the entry before.  The entry is stored at minute 0 and the sweep of
  minute 35 removes it; the \<open>Delete\<close> that follows is the first for that id and finds
  nothing to remove.
\<close>

theorem first_delete_after_sweep_returns_false:
  "fst (Store ''QUJD'' ''jpeg'' [] 0 NewImageCache) = generateCacheID []
   \<and> Delete (generateCacheID [])
        (run_calls [CallStore ''QUJD'' ''jpeg'' [] 0, CallCleanup (35 * Minute)] NewImageCache)
       = (False, \<lparr>entries = []\<rparr>)"
  by (simp add: run_calls_def Store_def Let_def NewImageCache_def generateCacheID_Nil cleanup_def
        Delete_def expiry_def Time_Sub_def Minute_def Second_def maxDuration_def minDuration_def)

section \<open>Facts about the service and the handlers\<close>

lemma Cut_comma_found:
  "CHR '','' \<notin> set pre \<Longrightarrow> Cut (pre @ CHR '','' # rest) '','' = (pre, rest, True)"
  by (induction pre) (auto simp: HasPrefix_def)

lemma Cut_comma_absent:
  "CHR '','' \<notin> set s \<Longrightarrow> Cut s '','' = (s, [], False)"
  by (induction s) (auto simp: HasPrefix_def)

lemmas base64_eval = base64_DecodeString_def decodeMap_def encodeStd_def quantum_bytes_def
  is_newline_def padChar_def encode6_def

lemma decode_QUJD: "base64_DecodeString ''QUJD'' = Inr [65, 66, 67]"
  by (simp add: base64_eval)

lemma decode_QUI: "base64_DecodeString ''QUI='' = Inr [65, 66]"
  by (simp add: base64_eval)

lemma decode_data_uri: "base64_DecodeString ''data:image/jpeg;base64,QUJD'' = Inl CorruptInputError"
  by (simp add: base64_eval)

lemma TrimSpace_unicode:
  "TrimSpace ([CHR 0x20, CHR 0xC2, CHR 0xA0] @ ''{}'' @ [CHR 0xE3, CHR 0x80, CHR 0x80, CHR 0x0A]) = ''{}''"
  by (simp add: TrimSpace_def asciiSpace_def isSpace2_def isSpace3_def)

lemma TrimSpace_not_a_rune:
  "TrimSpace (''ab'' @ [CHR 0xC2, CHR 0xA0, CHR 0xA0]) = ''ab'' @ [CHR 0xC2, CHR 0xA0, CHR 0xA0]"
  by (simp add: TrimSpace_def asciiSpace_def isSpace2_def isSpace3_def)


lemma decodeBase64Image_QUJD: "decodeBase64Image ''QUJD'' = Ok [65, 66, 67]"
  by (simp add: decodeBase64Image_def HasPrefix_def decode_QUJD)

lemma decodeBase64Image_data_uri: "decodeBase64Image ''data:image/jpeg;base64,QUJD'' = Ok [65, 66, 67]"
  by (simp add: decodeBase64Image_def HasPrefix_def decode_QUJD)

lemma decode_bangs:
  "decodeBase64Image ''!!!!!!!!!!!!!!!!!!!!!!!!!!!!!!!!'' = Err (WrapError ''failed to decode base64 image: '' CorruptInputError)"
  by (simp add: decodeBase64Image_def HasPrefix_def base64_eval)

lemma GenerateCutout_provider_error:
  assumes "decodeBase64Image imageBase64 = Ok imageData"
    and "GenerateContent s log ImageModel
           [genai_ImageData (TrimPrefix mimeType ''image/'') imageData, Text cutout_prompt] = Inl err"
  shows "GenerateCutout s imageBase64 mimeType log =
           (Err (WrapError ''failed to generate cutout: '' err),
            log @ [(ImageModel, [genai_ImageData (TrimPrefix mimeType ''image/'') imageData, Text cutout_prompt])])"
  using assms by (simp add: GenerateCutout_def call_GenerateContent_def Let_def)

lemma AIHandler_GenerateCutout_error:
  assumes "gemini h = Some s"
    and "GenerateCutout s (gc_ImageBase64 req) (gc_MimeType req) (providerLog w) = (Err err, log')"
  shows "AIHandler_GenerateCutout h (Inr req) rnd now w =
           (Respond StatusInternalServerError (H [(''error'', JErrorText err)]),
            w\<lparr>imageCache := snd (Delete (generateCacheID rnd)
                                   (snd (Store (gc_ImageBase64 req) (gc_MimeType req) rnd now (imageCache w)))),
              providerLog := log'\<rparr>)"
  using assms by (simp add: AIHandler_GenerateCutout_def Store_def Let_def)

lemma Get_rolled_back:
  "Get k (snd (Delete (generateCacheID rnd) (snd (Store p m rnd now c)))) =
     (if k = generateCacheID rnd then None else Get k c)"
  by (simp add: Get_Delete Get_Store)

lemma rolled_back_same:
  assumes "Get (generateCacheID rnd) c = None"
  shows "snd (Delete (generateCacheID rnd) (snd (Store p m rnd now c))) = c"
proof -
  have notin: "generateCacheID rnd \<notin> fst ` set (entries c)"
    using assms by (simp add: Get_def map_of_eq_None_iff)
  have "AList.delete (generateCacheID rnd) (AList.update (generateCacheID rnd)
          \<lparr>OriginalImageBase64 = p, MimeType = m, CreatedAt = now\<rparr> (entries c)) = entries c"
    using notin by (simp add: delete_update_same)
  then show ?thesis
    by (simp add: Delete_def Store_def Let_def update_conv')
qed

lemma services_stop_at_decode_error:
  assumes "decodeBase64Image imageBase64 = Err err"
  shows "AnalyzeClothing json_Unmarshal s imageBase64 mimeType log = (Err err, log)"
    and "RefineClothingAnalysis json_Unmarshal s imageBase64 userFeedback mimeType log = (Err err, log)"
    and "GenerateCutout s imageBase64 mimeType log = (Err err, log)"
    and "GenerateAvatar s imageBase64 mimeType metrics log = (Err err, log)"
  using assms
  by (simp_all add: AnalyzeClothing_def RefineClothingAnalysis_def GenerateCutout_def GenerateAvatar_def)

section \<open>Claims about the service and the handlers\<close>

text \<open>
  C1.  A generate-cutout request with the provider configured, whose image decodes and whose
  provider call fails (an error of the transport, or the deadline): the handler answers
  with status 500 and the error, the answer has no field \<open>cacheId\<close>, and when it returns
  \<open>Get\<close> finds nothing under the id minted by this request; the other entries of the cache
  are as before.
\<close>

theorem GenerateCutout_rolls_back_on_provider_failure:
  assumes "gemini h = Some s"
    and "decodeBase64Image (gc_ImageBase64 req) = Ok imageData"
    and "GenerateContent s (providerLog w) ImageModel
           [genai_ImageData (TrimPrefix (gc_MimeType req) ''image/'') imageData, Text cutout_prompt] = Inl err"
    and "AIHandler_GenerateCutout h (Inr req) rnd now w = (out, w')"
  shows "out = Respond StatusInternalServerError
                 (H [(''error'', JErrorText (WrapError ''failed to generate cutout: '' err))])
       \<and> status_of out = Some 500
       \<and> field_of out ''cacheId'' = None
       \<and> Get (generateCacheID rnd) (imageCache w') = None
       \<and> (\<forall>k. k \<noteq> generateCacheID rnd \<longrightarrow> Get k (imageCache w') = Get k (imageCache w))"
proof -
  note svc = GenerateCutout_provider_error [OF assms(2) assms(3)]
  note hd = AIHandler_GenerateCutout_error [OF assms(1) svc, of rnd now]
  have out: "out = Respond StatusInternalServerError
                 (H [(''error'', JErrorText (WrapError ''failed to generate cutout: '' err))])"
    and w': "imageCache w' = snd (Delete (generateCacheID rnd)
               (snd (Store (gc_ImageBase64 req) (gc_MimeType req) rnd now (imageCache w))))"
    using assms(4) hd by auto
  show ?thesis
    using out w' by (simp add: Get_rolled_back StatusInternalServerError_def)
qed

text \<open>
  The theorem at a request with the image \<open>QUJD\<close> on the new cache, with the provider whose
  calls fail.
\<close>

theorem GenerateCutout_rolls_back_on_provider_failure_witness:
  "gemini \<lparr>gemini = Some example_failing_service\<rparr> = Some example_failing_service
   \<and> decodeBase64Image (gc_ImageBase64 \<lparr>gc_ImageBase64 = ''QUJD'', gc_MimeType = ''image/jpeg''\<rparr>) = Ok [65, 66, 67]
   \<and> GenerateContent example_failing_service [] ImageModel
        [genai_ImageData (TrimPrefix ''image/jpeg'' ''image/'') [65, 66, 67], Text cutout_prompt]
       = Inl (ErrorString ''context deadline exceeded'')
   \<and> AIHandler_GenerateCutout \<lparr>gemini = Some example_failing_service\<rparr>
        (Inr \<lparr>gc_ImageBase64 = ''QUJD'', gc_MimeType = ''image/jpeg''\<rparr>) [] 0
        \<lparr>imageCache = NewImageCache, providerLog = []\<rparr>
       = (Respond StatusInternalServerError
            (H [(''error'', JErrorText (WrapError ''failed to generate cutout: ''
                                          (ErrorString ''context deadline exceeded'')))]),
          \<lparr>imageCache = NewImageCache,
           providerLog = [(ImageModel, [Blob ''image/jpeg'' [65, 66, 67], Text cutout_prompt])]\<rparr>)
   \<and> Get (generateCacheID []) NewImageCache = None"
proof -
  let ?h = "\<lparr>gemini = Some example_failing_service\<rparr>"
  let ?req = "\<lparr>gc_ImageBase64 = ''QUJD'', gc_MimeType = ''image/jpeg''\<rparr>"
  let ?w = "\<lparr>imageCache = NewImageCache, providerLog = []\<rparr>"
  let ?out = "Respond StatusInternalServerError
            (H [(''error'', JErrorText (WrapError ''failed to generate cutout: ''
                                          (ErrorString ''context deadline exceeded'')))])"
  let ?w' = "\<lparr>imageCache = NewImageCache,
           providerLog = [(ImageModel, [Blob ''image/jpeg'' [65, 66, 67], Text cutout_prompt])]\<rparr>"
  have h1: "gemini ?h = Some example_failing_service" by simp
  have h2: "decodeBase64Image (gc_ImageBase64 ?req) = Ok [65, 66, 67]"
    by (simp add: decodeBase64Image_def HasPrefix_def decode_QUJD)
  have h3: "GenerateContent example_failing_service (providerLog ?w) ImageModel
        [genai_ImageData (TrimPrefix (gc_MimeType ?req) ''image/'') [65, 66, 67], Text cutout_prompt]
       = Inl (ErrorString ''context deadline exceeded'')"
    by (simp add: example_failing_service_def)
  have h4: "AIHandler_GenerateCutout ?h (Inr ?req) [] 0 ?w = (?out, ?w')"
    using h2
    by (simp add: AIHandler_GenerateCutout_def GenerateCutout_def call_GenerateContent_def
          example_failing_service_def Store_def Delete_def Let_def NewImageCache_def
          genai_ImageData_def TrimPrefix_def HasPrefix_def update_conv')
  show ?thesis
    using h1 h2 h3 h4 GenerateCutout_rolls_back_on_provider_failure [OF h1 h2 h3 h4]
    by (simp add: TrimPrefix_def HasPrefix_def)
qed

text \<open>
  C2.  A refine-cutout request whose \<open>cacheId\<close> is not in the cache is answered with
  status 400 and the message that tells the caller to regenerate, and the world is left as
  it is: no provider call is logged and the cache is unchanged.  When the id is in the cache
  and the service's \<open>RefineCutout\<close> succeeds on the cached original, the answer has status
  200 and carries the image the service returned together with the \<open>cacheId\<close> of the
  request; the cache is unchanged.
\<close>

theorem RefineCutout_expired_or_echo:
  "(Get (rc_CacheID req) (imageCache w) = None \<longrightarrow>
      AIHandler_RefineCutout h (Inr req) w =
        (Respond StatusBadRequest
           (H [(''error'', JString ''Cache expired or not found. Please regenerate from original.'')]), w)
      \<and> status_of (fst (AIHandler_RefineCutout h (Inr req) w)) = Some 400)
   \<and> (Get (rc_CacheID req) (imageCache w) = Some entry \<and> gemini h = Some s
       \<and> RefineCutout s (OriginalImageBase64 entry) (rc_CurrentCutoutBase64 req) (rc_UserFeedback req)
            (rc_MimeType req) (providerLog w) = (Ok imageBase64, log') \<longrightarrow>
      AIHandler_RefineCutout h (Inr req) w =
        (Respond StatusOK
           (H [(''imageBase64'', JString imageBase64),
               (''cacheId'', JString (rc_CacheID req)),
               (''message'', JString ''Cutout refined successfully'')]),
         w\<lparr>providerLog := log'\<rparr>))"
proof (intro conjI impI)
  assume absent: "Get (rc_CacheID req) (imageCache w) = None"
  then show "AIHandler_RefineCutout h (Inr req) w =
        (Respond StatusBadRequest
           (H [(''error'', JString ''Cache expired or not found. Please regenerate from original.'')]), w)"
    by (simp add: AIHandler_RefineCutout_def)
  then show "status_of (fst (AIHandler_RefineCutout h (Inr req) w)) = Some 400"
    by (simp add: StatusBadRequest_def)
next
  assume present: "Get (rc_CacheID req) (imageCache w) = Some entry \<and> gemini h = Some s
       \<and> RefineCutout s (OriginalImageBase64 entry) (rc_CurrentCutoutBase64 req) (rc_UserFeedback req)
            (rc_MimeType req) (providerLog w) = (Ok imageBase64, log')"
  then show "AIHandler_RefineCutout h (Inr req) w =
        (Respond StatusOK
           (H [(''imageBase64'', JString imageBase64),
               (''cacheId'', JString (rc_CacheID req)),
               (''message'', JString ''Cutout refined successfully'')]),
         w\<lparr>providerLog := log'\<rparr>)"
    by (simp add: AIHandler_RefineCutout_def)
qed

text \<open>
  The theorem at an unknown id on the new cache, and at a known id with a service that
  returns the image \<open>QUJD\<close>.
\<close>

theorem RefineCutout_expired_or_echo_witness:
  "Get ''ff'' NewImageCache = None
   \<and> AIHandler_RefineCutout \<lparr>gemini = Some example_image_service\<rparr>
        (Inr \<lparr>rc_CacheID = ''ff'', rc_CurrentCutoutBase64 = ''QUI='', rc_UserFeedback = ''brighter'',
              rc_MimeType = ''png''\<rparr>)
        \<lparr>imageCache = NewImageCache, providerLog = []\<rparr>
       = (Respond StatusBadRequest
            (H [(''error'', JString ''Cache expired or not found. Please regenerate from original.'')]),
          \<lparr>imageCache = NewImageCache, providerLog = []\<rparr>)
   \<and> Get ''ff'' \<lparr>entries = [(''ff'', \<lparr>OriginalImageBase64 = ''QUJD'', MimeType = ''png'', CreatedAt = 0\<rparr>)]\<rparr>
       = Some \<lparr>OriginalImageBase64 = ''QUJD'', MimeType = ''png'', CreatedAt = 0\<rparr>
   \<and> RefineCutout example_image_service ''QUJD'' ''QUI='' ''brighter'' ''png'' []
       = (Ok ''QUJD'', [(ImageModel, [Text ''brighter''])])
   \<and> AIHandler_RefineCutout \<lparr>gemini = Some example_image_service\<rparr>
        (Inr \<lparr>rc_CacheID = ''ff'', rc_CurrentCutoutBase64 = ''QUI='', rc_UserFeedback = ''brighter'',
              rc_MimeType = ''png''\<rparr>)
        \<lparr>imageCache = \<lparr>entries = [(''ff'', \<lparr>OriginalImageBase64 = ''QUJD'', MimeType = ''png'', CreatedAt = 0\<rparr>)]\<rparr>,
         providerLog = []\<rparr>
       = (Respond StatusOK
            (H [(''imageBase64'', JString ''QUJD''), (''cacheId'', JString ''ff''),
                (''message'', JString ''Cutout refined successfully'')]),
          \<lparr>imageCache = \<lparr>entries = [(''ff'', \<lparr>OriginalImageBase64 = ''QUJD'', MimeType = ''png'', CreatedAt = 0\<rparr>)]\<rparr>,
           providerLog = [(ImageModel, [Text ''brighter''])]\<rparr>)"
proof -
  let ?h = "\<lparr>gemini = Some example_image_service\<rparr>"
  let ?req = "\<lparr>rc_CacheID = ''ff'', rc_CurrentCutoutBase64 = ''QUI='', rc_UserFeedback = ''brighter'',
              rc_MimeType = ''png''\<rparr>"
  let ?e = "\<lparr>OriginalImageBase64 = ''QUJD'', MimeType = ''png'', CreatedAt = 0\<rparr>"
  let ?w0 = "\<lparr>imageCache = NewImageCache, providerLog = []\<rparr>"
  let ?w1 = "\<lparr>imageCache = \<lparr>entries = [(''ff'', ?e)]\<rparr>, providerLog = []\<rparr>"
  have a: "Get (rc_CacheID ?req) (imageCache ?w0) = None"
    by (simp add: Get_def NewImageCache_def)
  have b: "Get (rc_CacheID ?req) (imageCache ?w1) = Some ?e \<and> gemini ?h = Some example_image_service
       \<and> RefineCutout example_image_service (OriginalImageBase64 ?e) (rc_CurrentCutoutBase64 ?req)
            (rc_UserFeedback ?req) (rc_MimeType ?req) (providerLog ?w1)
          = (Ok ''QUJD'', [(ImageModel, [Text ''brighter''])])"
    by (simp add: Get_def example_image_service_def example_refine_def)
  show ?thesis
    using a b
      RefineCutout_expired_or_echo [of ?req ?w0 ?h ?e example_image_service "''QUJD''" "[(ImageModel, [Text ''brighter''])]"]
      RefineCutout_expired_or_echo [of ?req ?w1 ?h ?e example_image_service "''QUJD''" "[(ImageModel, [Text ''brighter''])]"]
    by simp
qed




text \<open>
  C7, at the input where the code departs from it.  The provider answers the refinement
  without any candidate: \<open>RefineClothingAnalysis\<close> panics at \<open>resp.Candidates[0]\<close> and the
  handler is left by the panic, while \<open>AnalyzeClothing\<close> and \<open>extractImageFromResponse\<close>
  return the error \<open>no response from AI\<close> on the same answer, and an answer without a binary
  part gives the error \<open>no image generated\<close>.
\<close>

theorem refine_analysis_panics_without_candidates:
  "RefineClothingAnalysis example_unmarshal example_empty_service ''QUJD'' ''it is blue'' ''jpeg'' []
     = (Panic IndexOutOfRange,
        [(AnalysisModel, [Blob ''image/jpeg'' [65, 66, 67], Text (refine_prompt ''it is blue'')])])
   \<and> fst (AIHandler_RefineAnalysis example_unmarshal \<lparr>gemini = Some example_empty_service\<rparr>
            (Inr \<lparr>ra_ImageBase64 = ''QUJD'', ra_MimeType = ''jpeg'', ra_UserFeedback = ''it is blue''\<rparr>)
            \<lparr>imageCache = NewImageCache, providerLog = []\<rparr>)
       = Crash IndexOutOfRange
   \<and> fst (AnalyzeClothing example_unmarshal example_empty_service ''QUJD'' ''jpeg'' [])
       = Err (ErrorString ''no response from AI'')
   \<and> extractImageFromResponse (Some \<lparr>Candidates = []\<rparr>) = Err (ErrorString ''no response from AI'')
   \<and> extractImageFromResponse
        (Some \<lparr>Candidates = [\<lparr>Content = Some \<lparr>Parts = [Text ''I cannot do that'']\<rparr>\<rparr>]\<rparr>)
       = Err (ErrorString ''no image generated'')"
  by (simp add: AIHandler_RefineAnalysis_def RefineClothingAnalysis_def AnalyzeClothing_def
        extractImageFromResponse_def decodeBase64Image_QUJD call_GenerateContent_def
        example_empty_service_def genai_ImageData_def TrimPrefix_def HasPrefix_def Let_def)

text \<open>
  Beside C6 and C7: on an answer whose first candidate has no content, the three paths
  dereference the \<open>nil\<close> content and panic; the refinement does not fall back there.
\<close>

lemma nil_content_panics:
  "fst (RefineClothingAnalysis example_unmarshal example_nil_content_service ''QUJD'' ''it is blue'' ''jpeg'' [])
     = Panic NilPointerDereference
   \<and> fst (AnalyzeClothing example_unmarshal example_nil_content_service ''QUJD'' ''jpeg'' [])
       = Panic NilPointerDereference
   \<and> extractImageFromResponse (Some \<lparr>Candidates = [\<lparr>Content = None\<rparr>]\<rparr>) = Panic NilPointerDereference"
  by (simp add: RefineClothingAnalysis_def AnalyzeClothing_def extractImageFromResponse_def
        decodeBase64Image_QUJD call_GenerateContent_def example_nil_content_service_def Let_def)

text \<open>
  C8, at the input where the code departs from it.  \<open>decodeBase64Image\<close> strips the data-URI
  header, but \<open>GenerateCollage\<close> and \<open>VirtualTryOn\<close> decode their images without it: an
  image with the header does not decode there.  A collage of that one image fails with
  \<open>no valid images provided\<close>, the try-on with that avatar fails with a decoding error,
  and a garment with the header is dropped from the try-on request without a word.
\<close>

theorem collage_and_tryon_do_not_strip_data_uri:
  "decodeBase64Image ''data:image/jpeg;base64,QUJD'' = Ok [65, 66, 67]
   \<and> GenerateCollage example_image_service [''data:image/jpeg;base64,QUJD''] []
       = (Err (ErrorString ''no valid images provided''), [])
   \<and> GenerateCollage example_image_service [''QUJD''] []
       = (Ok ''QUJD'', [(ImageModel, [Blob ''image/image/jpeg'' [65, 66, 67], Text collage_prompt])])
   \<and> VirtualTryOn example_image_service ''data:image/jpeg;base64,QUJD'' [''QUJD''] []
       = (Err (WrapError ''failed to decode avatar: '' CorruptInputError), [])
   \<and> VirtualTryOn example_image_service ''QUJD'' [''data:image/jpeg;base64,QUJD''] []
       = (Ok ''QUJD'', [(ImageModel, [Blob ''image/image/jpeg'' [65, 66, 67], Text tryon_prompt])])"
  by (simp add: decodeBase64Image_data_uri GenerateCollage_def VirtualTryOn_def decode_data_uri
        decode_QUJD encode6_def encodeStd_def extractImageFromResponse_def call_GenerateContent_def
        example_image_service_def genai_ImageData_def Let_def)

text \<open>
  C9, as the code has it.  A generate-cutout request with the provider configured, whose
  image payload does not decode and for which \<open>decodeBase64Image\<close> returns its error: the
  handler answers with status 500 and that error, no provider call is made, and the entry
  that was staged before the decoding is deleted again, so that \<open>Get\<close> finds nothing under
  the minted id, every other entry is as before, and the world is the one before the
  request when the minted id was not in use.  Each method of the service that decodes with
  \<open>decodeBase64Image\<close> returns that error without a provider call.
\<close>

theorem malformed_image_aborts_before_provider:
  assumes "decodeBase64Image (gc_ImageBase64 req) = Err err"
    and "gemini h = Some s"
    and "AIHandler_GenerateCutout h (Inr req) rnd now w = (out, w')"
  shows "out = Respond StatusInternalServerError (H [(''error'', JErrorText err)])
       \<and> status_of out = Some 500
       \<and> providerLog w' = providerLog w
       \<and> Get (generateCacheID rnd) (imageCache w') = None
       \<and> (\<forall>k. k \<noteq> generateCacheID rnd \<longrightarrow> Get k (imageCache w') = Get k (imageCache w))
       \<and> (Get (generateCacheID rnd) (imageCache w) = None \<longrightarrow> w' = w)
       \<and> AnalyzeClothing json_Unmarshal s (gc_ImageBase64 req) mimeType log = (Err err, log)
       \<and> RefineClothingAnalysis json_Unmarshal s (gc_ImageBase64 req) userFeedback mimeType log = (Err err, log)
       \<and> GenerateCutout s (gc_ImageBase64 req) mimeType log = (Err err, log)
       \<and> GenerateAvatar s (gc_ImageBase64 req) mimeType metrics log = (Err err, log)"
proof -
  note svc = services_stop_at_decode_error [OF assms(1)]
  note hd = AIHandler_GenerateCutout_error [OF assms(2) svc(3), of rnd now]
  have out: "out = Respond StatusInternalServerError (H [(''error'', JErrorText err)])"
    and w': "w' = w\<lparr>imageCache := snd (Delete (generateCacheID rnd)
               (snd (Store (gc_ImageBase64 req) (gc_MimeType req) rnd now (imageCache w)))),
               providerLog := providerLog w\<rparr>"
    using assms(3) hd by auto
  have same: "Get (generateCacheID rnd) (imageCache w) = None \<longrightarrow> w' = w"
    using w' by (simp add: rolled_back_same)
  show ?thesis
    using out w' same svc by (simp add: Get_rolled_back StatusInternalServerError_def)
qed

text \<open>
  The theorem at a payload of 32 exclamation marks, on the new cache.
\<close>

theorem malformed_image_aborts_before_provider_witness:
  "decodeBase64Image ''!!!!!!!!!!!!!!!!!!!!!!!!!!!!!!!!''
     = Err (WrapError ''failed to decode base64 image: '' CorruptInputError)
   \<and> AIHandler_GenerateCutout \<lparr>gemini = Some example_image_service\<rparr>
        (Inr \<lparr>gc_ImageBase64 = ''!!!!!!!!!!!!!!!!!!!!!!!!!!!!!!!!'', gc_MimeType = ''jpeg''\<rparr>) [1] 0
        \<lparr>imageCache = NewImageCache, providerLog = []\<rparr>
       = (Respond StatusInternalServerError
            (H [(''error'', JErrorText (WrapError ''failed to decode base64 image: '' CorruptInputError))]),
          \<lparr>imageCache = NewImageCache, providerLog = []\<rparr>)
   \<and> GenerateAvatar example_image_service ''!!!!!!!!!!!!!!!!!!!!!!!!!!!!!!!!'' ''jpeg''
        \<lparr>Gender = ''f'', Height = ''170'', Weight = ''60'', Bust = ''90'', Waist = ''70'', Hips = ''95'',
         Thigh = ''50'', Calf = ''35'', Features = ''none''\<rparr> []
       = (Err (WrapError ''failed to decode base64 image: '' CorruptInputError), [])"
proof -
  let ?h = "\<lparr>gemini = Some example_image_service\<rparr>"
  let ?req = "\<lparr>gc_ImageBase64 = ''!!!!!!!!!!!!!!!!!!!!!!!!!!!!!!!!'', gc_MimeType = ''jpeg''\<rparr>"
  let ?w = "\<lparr>imageCache = NewImageCache, providerLog = []\<rparr>"
  let ?err = "WrapError ''failed to decode base64 image: '' CorruptInputError"
  have h1: "decodeBase64Image (gc_ImageBase64 ?req) = Err ?err"
    using decode_bangs by simp
  have h2: "gemini ?h = Some example_image_service" by simp
  have g: "Get (generateCacheID [1]) (imageCache ?w) = None"
    by (simp add: Get_def NewImageCache_def)
  obtain out w' where h3: "AIHandler_GenerateCutout ?h (Inr ?req) [1] 0 ?w = (out, w')"
    by (cases "AIHandler_GenerateCutout ?h (Inr ?req) [1] 0 ?w")
  show ?thesis
    using h1 h3 g malformed_image_aborts_before_provider [OF h1 h2 h3]
    by simp
qed

text \<open>
  C9 as stated fails: the answer to a generate-cutout request with a payload that is not
  base64 has the status 500 of a server error, not a status of the 4xx class.
\<close>

theorem malformed_cutout_request_gets_server_error:
  "base64_DecodeString ''!!!!!!!!!!!!!!!!!!!!!!!!!!!!!!!!'' = Inl CorruptInputError
   \<and> AIHandler_GenerateCutout \<lparr>gemini = Some example_image_service\<rparr>
        (Inr \<lparr>gc_ImageBase64 = ''!!!!!!!!!!!!!!!!!!!!!!!!!!!!!!!!'', gc_MimeType = ''jpeg''\<rparr>) [] 0
        \<lparr>imageCache = NewImageCache, providerLog = []\<rparr>
       = (Respond 500 (H [(''error'', JErrorText (WrapError ''failed to decode base64 image: '' CorruptInputError))]),
          \<lparr>imageCache = NewImageCache, providerLog = []\<rparr>)"
  by (simp add: base64_eval AIHandler_GenerateCutout_def GenerateCutout_def decode_bangs
        Store_def Delete_def Let_def NewImageCache_def update_conv' StatusInternalServerError_def)

text \<open>
  Beside C9: when the payload that does not decode is shorter than 30 bytes, the log line of
  \<open>decodeBase64Image\<close> panics on \<open>imageBase64[:30]\<close>.  The panic leaves the handler before
  \<open>cache.Delete\<close>, and the entry staged for the request stays in the cache.
\<close>

lemma decode_short_bangs: "decodeBase64Image ''!!!'' = Panic SliceBoundsOutOfRange"
  by (simp add: decodeBase64Image_def HasPrefix_def base64_eval)

lemma short_malformed_payload_leaves_entry_behind:
  "AIHandler_GenerateCutout \<lparr>gemini = Some example_image_service\<rparr>
     (Inr \<lparr>gc_ImageBase64 = ''!!!'', gc_MimeType = ''jpeg''\<rparr>) [] 0
     \<lparr>imageCache = NewImageCache, providerLog = []\<rparr>
   = (Crash SliceBoundsOutOfRange,
      \<lparr>imageCache = \<lparr>entries = [(''00000000000000000000000000000000'',
                                   \<lparr>OriginalImageBase64 = ''!!!'', MimeType = ''jpeg'', CreatedAt = 0\<rparr>)]\<rparr>,
       providerLog = []\<rparr>)"
  by (simp add: AIHandler_GenerateCutout_def GenerateCutout_def decode_short_bangs Store_def Let_def
        NewImageCache_def generateCacheID_Nil)

text \<open>
  C10.  When the string has a comma, \<open>decodeBase64Image\<close> decodes what follows the first
  comma and nothing else, whatever stands before it; when it has none, it decodes the
  string as it is.  The result is that of the decoding of that remainder (with the panic of
  the log line when the decoding fails on a remainder shorter than 30 bytes).
\<close>

theorem decodeBase64Image_cuts_at_first_comma:
  "(CHR '','' \<notin> set pre \<longrightarrow>
      decodeBase64Image (pre @ '','' @ rest) =
        (case base64_DecodeString rest of
           Inl err \<Rightarrow> if length rest < 30 then Panic SliceBoundsOutOfRange
                      else Err (WrapError ''failed to decode base64 image: '' err)
         | Inr imageData \<Rightarrow> Ok imageData))
   \<and> (CHR '','' \<notin> set s \<longrightarrow>
      decodeBase64Image s =
        (case base64_DecodeString s of
           Inl err \<Rightarrow> if length s < 30 then Panic SliceBoundsOutOfRange
                      else Err (WrapError ''failed to decode base64 image: '' err)
         | Inr imageData \<Rightarrow> Ok imageData))"
  by (simp add: decodeBase64Image_def Let_def Cut_comma_found Cut_comma_absent)

text \<open>
  The theorem at a data-URI header, at a prefix that is no header (the first of two
  payloads), and at a string without a comma.
\<close>

theorem decodeBase64Image_cuts_at_first_comma_witness:
  "CHR '','' \<notin> set ''data:image/jpeg;base64''
   \<and> decodeBase64Image (''data:image/jpeg;base64'' @ '','' @ ''QUJD'') = Ok [65, 66, 67]
   \<and> CHR '','' \<notin> set ''QUJD''
   \<and> decodeBase64Image (''QUJD'' @ '','' @ ''QUI='') = Ok [65, 66]
   \<and> decodeBase64Image ''QUJD'' = Ok [65, 66, 67]"
  using decodeBase64Image_cuts_at_first_comma [of "''data:image/jpeg;base64''" "''QUJD''" "''QUJD''"]
    decodeBase64Image_cuts_at_first_comma [of "''QUJD''" "''QUI=''" "''QUJD''"]
  by (simp add: decode_QUJD decode_QUI)

end
